theory Spec2Isabelle
  imports Complex_Main
begin

section \<open>Python primitives used by \<open>transform_instances.py\<close>\<close>

text \<open>
  Python floats are modelled as exact rationals: every float operation of the source
  (\<open>*\<close>, \<open>/\<close>, \<open>+\<close>, \<open>-\<close>, \<open>round\<close>, \<open>math.ceil\<close>, \<open>math.floor\<close>, \<open>int\<close>) is
  the exact operation on \<open>rat\<close>. Python integers are \<open>int\<close>.
\<close>

datatype error =
    IndexError
    \<comment> \<open>list index out of range\<close>
  | ValueError
    \<comment> \<open>a failed \<open>int()\<close>/\<open>float()\<close> conversion, or \<open>min()\<close>/\<open>max()\<close> of an empty sequence\<close>
  | LineMissing int nat
    \<comment> \<open>\<open>ValueError("Line i doesn't exist in the file (total lines: n)")\<close>\<close>
  | InsufficientData int string
    \<comment> \<open>\<open>ValueError("Line i has insufficient data: line")\<close>\<close>
  | FormatError int error
    \<comment> \<open>\<open>ValueError("Format error in line i: str(e)")\<close>\<close>

text \<open>What the function prints, in order.\<close>

datatype message =
    Transforming
  | NotType6 int
  | ErrorParsingLine int string
  | Tokens "string list"
  | WarningMissingDepot int
  | Written

text \<open>\<open>xs[i]\<close>: a negative index counts from the end; out of range raises IndexError.\<close>

definition py_nth :: "'a list \<Rightarrow> int \<Rightarrow> error + 'a" where
  "py_nth xs i =
     (if 0 \<le> i \<and> i < int (length xs) then Inr (xs ! nat i)
      else if i < 0 \<and> - int (length xs) \<le> i then Inr (xs ! nat (int (length xs) + i))
      else Inl IndexError)"

text \<open>\<open>range(a, b)\<close> as the list of its elements.\<close>

definition py_range :: "int \<Rightarrow> int \<Rightarrow> int list" where
  "py_range a b = [a..b - 1]"

text \<open>\<open>str.split()\<close> and \<open>str.strip()\<close> with no argument, on the ASCII whitespace characters.\<close>

definition is_space :: "char \<Rightarrow> bool" where
  "is_space c = (c \<in> set [CHR '' '', CHR 0x09, CHR 0x0A, CHR 0x0B, CHR 0x0C, CHR 0x0D,
                            CHR 0x1C, CHR 0x1D, CHR 0x1E, CHR 0x1F])"

function split :: "string \<Rightarrow> string list" where
  "split [] = []"
| "split (c # cs) =
     (if is_space c then split cs
      else (c # takeWhile (\<lambda>d. \<not> is_space d) cs) # split (dropWhile (\<lambda>d. \<not> is_space d) cs))"
  by pat_completeness auto
termination
  by (relation "measure length") (auto simp: length_dropWhile_le less_Suc_eq_le)

definition strip :: "string \<Rightarrow> string" where
  "strip s = rev (dropWhile is_space (rev (dropWhile is_space s)))"

text \<open>
  \<open>int(token)\<close> and \<open>float(token)\<close> are Python built-ins: they are parameters of the
  model, \<open>None\<close> standing for the ValueError of a failed conversion.
\<close>

record conv =
  py_int :: "string \<Rightarrow> int option"
  py_float :: "string \<Rightarrow> rat option"

definition to_int :: "conv \<Rightarrow> string \<Rightarrow> error + int" where
  "to_int cv s = (case py_int cv s of None \<Rightarrow> Inl ValueError | Some n \<Rightarrow> Inr n)"

definition to_float :: "conv \<Rightarrow> string \<Rightarrow> error + rat" where
  "to_float cv s = (case py_float cv s of None \<Rightarrow> Inl ValueError | Some q \<Rightarrow> Inr q)"

text \<open>\<open>int(tokens[k])\<close> and \<open>float(tokens[k])\<close>: the index is evaluated first.\<close>

definition int_at :: "conv \<Rightarrow> string list \<Rightarrow> int \<Rightarrow> error + int" where
  "int_at cv toks k = (case py_nth toks k of Inl e \<Rightarrow> Inl e | Inr s \<Rightarrow> to_int cv s)"

definition float_at :: "conv \<Rightarrow> string list \<Rightarrow> int \<Rightarrow> error + rat" where
  "float_at cv toks k = (case py_nth toks k of Inl e \<Rightarrow> Inl e | Inr s \<Rightarrow> to_float cv s)"

text \<open>\<open>int(x)\<close> on a float truncates towards zero.\<close>

definition py_trunc :: "rat \<Rightarrow> int" where
  "py_trunc q = (if 0 \<le> q then \<lfloor>q\<rfloor> else \<lceil>q\<rceil>)"

text \<open>\<open>round(x, 1)\<close>: to the nearest tenth, a tie going to the even tenth.\<close>

definition round_half_even :: "rat \<Rightarrow> int" where
  "round_half_even q =
     (let f = \<lfloor>q\<rfloor>; d = q - of_int f
      in if d < 1 / 2 then f
         else if 1 / 2 < d then f + 1
         else if even f then f else f + 1)"

definition py_round1 :: "rat \<Rightarrow> rat" where
  "py_round1 q = of_int (round_half_even (q * 10)) / 10"

text \<open>
  The random module: \<open>random.random()\<close> and \<open>random.randint(a, b)\<close> act on the global
  generator state. The generator is a parameter of the model: a state type \<open>'g\<close> with
  the two calls as functions returning the drawn value and the next state.
\<close>

record 'g rng =
  rng_random :: "'g \<Rightarrow> rat \<times> 'g"
  rng_randint :: "int \<Rightarrow> int \<Rightarrow> 'g \<Rightarrow> int \<times> 'g"

text \<open>What the library guarantees of the two calls.\<close>

definition rng_ok :: "'g rng \<Rightarrow> bool" where
  "rng_ok R \<longleftrightarrow>
     (\<forall>g. 0 \<le> fst (rng_random R g) \<and> fst (rng_random R g) < 1) \<and>
     (\<forall>a b g. a \<le> b \<longrightarrow> a \<le> fst (rng_randint R a b g) \<and> fst (rng_randint R a b g) \<le> b)"

text \<open>A \<open>for\<close> loop over a list whose body reads and advances the generator.\<close>

fun for_each :: "('a \<Rightarrow> 'g \<Rightarrow> 'b \<times> 'g) \<Rightarrow> 'a list \<Rightarrow> 'g \<Rightarrow> 'b list \<times> 'g" where
  "for_each body [] g = ([], g)"
| "for_each body (x # xs) g =
     (case body x g of (y, g1) \<Rightarrow>
        (case for_each body xs g1 of (ys, g2) \<Rightarrow> (y # ys, g2)))"

text \<open>A \<open>for\<close> loop whose body may raise: the first exception ends the loop.\<close>

fun for_each_err :: "('a \<Rightarrow> error + 'b) \<Rightarrow> 'a list \<Rightarrow> error + 'b list" where
  "for_each_err body [] = Inr []"
| "for_each_err body (x # xs) =
     (case body x of
        Inl e \<Rightarrow> Inl e
      | Inr y \<Rightarrow> (case for_each_err body xs of Inl e \<Rightarrow> Inl e | Inr ys \<Rightarrow> Inr (y # ys)))"

section \<open>Parsing the instance text (source lines 59 to 137)\<close>

text \<open>One customer dictionary as first built by the parser.\<close>

record customer =
  c_id :: int
  c_x :: rat
  c_y :: rat
  service_time :: rat
  demand :: int
  tw_start :: int
  tw_end :: int

text \<open>\<open>max(...)\<close> of a sequence of integers: ValueError when it is empty.\<close>

definition py_max :: "int list \<Rightarrow> error + int" where
  "py_max xs = (case xs of [] \<Rightarrow> Inl ValueError | x # ys \<Rightarrow> Inr (fold max ys x))"

text \<open>The four integers of the first line.\<close>

definition parse_header :: "conv \<Rightarrow> string list \<Rightarrow> error + (int \<times> int \<times> int \<times> int)" where
  "parse_header cv lines =
     (case py_nth lines 0 of Inl e \<Rightarrow> Inl e | Inr l \<Rightarrow>
      (let first_line = split l in
       case int_at cv first_line 0 of Inl e \<Rightarrow> Inl e | Inr vrp_type \<Rightarrow>
       (case int_at cv first_line 1 of Inl e \<Rightarrow> Inl e | Inr num_vehicles \<Rightarrow>
        (case int_at cv first_line 2 of Inl e \<Rightarrow> Inl e | Inr num_customers \<Rightarrow>
         (case int_at cv first_line 3 of Inl e \<Rightarrow> Inl e | Inr num_depots \<Rightarrow>
            Inr (vrp_type, num_vehicles, num_customers, num_depots))))))"

text \<open>The body of the depot loop: \<open>(duration, capacity)\<close> of line \<open>i\<close>.\<close>

definition parse_depot :: "conv \<Rightarrow> string list \<Rightarrow> int \<Rightarrow> error + (int \<times> int)" where
  "parse_depot cv lines i =
     (case py_nth lines i of Inl e \<Rightarrow> Inl e | Inr l \<Rightarrow>
      (let depot_line = split l in
       case int_at cv depot_line 0 of Inl e \<Rightarrow> Inl e | Inr duration \<Rightarrow>
       (case int_at cv depot_line 1 of Inl e \<Rightarrow> Inl e | Inr capacity \<Rightarrow>
          Inr (duration, capacity))))"

text \<open>The body of the \<open>try\<close> block of the customer loop.\<close>

definition customer_fields ::
  "conv \<Rightarrow> bool \<Rightarrow> (int \<times> int) list \<Rightarrow> string list \<Rightarrow> error + customer" where
  "customer_fields cv has_time_windows depot_info tokens =
     (case int_at cv tokens 0 of Inl e \<Rightarrow> Inl e | Inr customer_id \<Rightarrow>
      (case float_at cv tokens 1 of Inl e \<Rightarrow> Inl e | Inr x \<Rightarrow>
       (case float_at cv tokens 2 of Inl e \<Rightarrow> Inl e | Inr y \<Rightarrow>
        (case float_at cv tokens 3 of Inl e \<Rightarrow> Inl e | Inr st \<Rightarrow>
         (case int_at cv tokens 4 of Inl e \<Rightarrow> Inl e | Inr dem \<Rightarrow>
          (if has_time_windows then
             (case int_at cv tokens (- 2) of Inl e \<Rightarrow> Inl e | Inr time_window_start \<Rightarrow>
              (case int_at cv tokens (- 1) of Inl e \<Rightarrow> Inl e | Inr time_window_end \<Rightarrow>
                 Inr \<lparr>c_id = customer_id, c_x = x, c_y = y, service_time = st, demand = dem,
                      tw_start = time_window_start, tw_end = time_window_end\<rparr>))
           else
             (case py_max (map fst depot_info) of Inl e \<Rightarrow> Inl e | Inr max_duration \<Rightarrow>
                Inr \<lparr>c_id = customer_id, c_x = x, c_y = y, service_time = st, demand = dem,
                     tw_start = 0,
                     tw_end = (if 0 < max_duration then max_duration else 1000)\<rparr>)))))))"

text \<open>
  The body of the customer loop for line index \<open>i\<close>: what it prints and what it
  raises or appends.
\<close>

definition parse_customer ::
  "conv \<Rightarrow> bool \<Rightarrow> (int \<times> int) list \<Rightarrow> string list \<Rightarrow> int \<Rightarrow> message list \<times> (error + customer)" where
  "parse_customer cv has_time_windows depot_info lines i =
     (if int (length lines) \<le> i then ([], Inl (LineMissing i (length lines)))
      else
        (case py_nth lines i of Inl e \<Rightarrow> ([], Inl e) | Inr l \<Rightarrow>
         (let line = strip l; tokens = split line in
          if length tokens < 5 then ([], Inl (InsufficientData i line))
          else
            (case customer_fields cv has_time_windows depot_info tokens of
               Inl e \<Rightarrow> ([ErrorParsingLine i line, Tokens tokens], Inl (FormatError i e))
             | Inr c \<Rightarrow> ([], Inr c)))))"

fun parse_customers ::
  "conv \<Rightarrow> bool \<Rightarrow> (int \<times> int) list \<Rightarrow> string list \<Rightarrow> int list \<Rightarrow>
   message list \<times> (error + customer list)" where
  "parse_customers cv tw depot_info lines [] = ([], Inr [])"
| "parse_customers cv tw depot_info lines (i # js) =
     (case parse_customer cv tw depot_info lines i of
        (out, Inl e) \<Rightarrow> (out, Inl e)
      | (out, Inr c) \<Rightarrow>
          (case parse_customers cv tw depot_info lines js of
             (out', Inl e) \<Rightarrow> (out @ out', Inl e)
           | (out', Inr cs) \<Rightarrow> (out @ out', Inr (c # cs))))"

text \<open>The depot coordinate loop: a missing line is a warning, not an error.\<close>

definition parse_depot_coord :: "conv \<Rightarrow> string list \<Rightarrow> int \<Rightarrow> error + (int \<times> rat \<times> rat)" where
  "parse_depot_coord cv lines i =
     (case py_nth lines i of Inl e \<Rightarrow> Inl e | Inr l \<Rightarrow>
      (let depot_line = split l in
       case int_at cv depot_line 0 of Inl e \<Rightarrow> Inl e | Inr depot_id \<Rightarrow>
       (case float_at cv depot_line 1 of Inl e \<Rightarrow> Inl e | Inr x \<Rightarrow>
        (case float_at cv depot_line 2 of Inl e \<Rightarrow> Inl e | Inr y \<Rightarrow>
           Inr (depot_id, x, y)))))"

fun parse_depot_coords ::
  "conv \<Rightarrow> string list \<Rightarrow> int list \<Rightarrow> message list \<times> (error + (int \<times> rat \<times> rat) list)" where
  "parse_depot_coords cv lines [] = ([], Inr [])"
| "parse_depot_coords cv lines (i # js) =
     (if i < int (length lines) then
        (case parse_depot_coord cv lines i of
           Inl e \<Rightarrow> ([], Inl e)
         | Inr d \<Rightarrow>
             (case parse_depot_coords cv lines js of
                (out, Inl e) \<Rightarrow> (out, Inl e)
              | (out, Inr ds) \<Rightarrow> (out, Inr (d # ds))))
      else
        (case parse_depot_coords cv lines js of
           (out, r) \<Rightarrow> (WarningMissingDepot i # out, r)))"

record parsed =
  p_vrp_type :: int
  p_num_vehicles :: int
  p_num_customers :: int
  p_num_depots :: int
  p_depot_info :: "(int \<times> int) list"
  p_customers :: "customer list"
  p_depot_coords :: "(int \<times> rat \<times> rat) list"

text \<open>The parsing part of \<open>transform_instance_to_json\<close>, with what it prints.\<close>

definition parse_instance :: "conv \<Rightarrow> string list \<Rightarrow> message list \<times> (error + parsed)" where
  "parse_instance cv lines =
     (case parse_header cv lines of Inl e \<Rightarrow> ([], Inl e)
      | Inr (vt, nv, nc, nd) \<Rightarrow>
        (let has_time_windows = (vt = 6);
             out1 = (if \<not> has_time_windows then [NotType6 vt] else [])
         in case for_each_err (parse_depot cv lines) (py_range 1 (nd + 1)) of
              Inl e \<Rightarrow> (out1, Inl e)
            | Inr dinfo \<Rightarrow>
              (case parse_customers cv has_time_windows dinfo lines
                      (py_range (nd + 1) (nd + nc + 1)) of
                 (out2, Inl e) \<Rightarrow> (out1 @ out2, Inl e)
               | (out2, Inr custs) \<Rightarrow>
                 (case parse_depot_coords cv lines
                         (py_range (nd + nc + 1) (nd + nc + nd + 1)) of
                    (out3, Inl e) \<Rightarrow> (out1 @ out2 @ out3, Inl e)
                  | (out3, Inr coords) \<Rightarrow>
                      (out1 @ out2 @ out3,
                       Inr \<lparr>p_vrp_type = vt, p_num_vehicles = nv, p_num_customers = nc,
                            p_num_depots = nd, p_depot_info = dinfo, p_customers = custs,
                            p_depot_coords = coords\<rparr>)))))"

section \<open>Configuration constants (source lines 17 to 47)\<close>

definition RANDOM_SEED :: int where "RANDOM_SEED = 42"
definition PICKUP_HANDLING_FACTOR :: rat where "PICKUP_HANDLING_FACTOR = 1 / 2"
definition BASE_OPERATION_TIME_FACTOR :: rat where "BASE_OPERATION_TIME_FACTOR = 2 / 10"
definition CATEGORY_A_THRESHOLD :: rat where "CATEGORY_A_THRESHOLD = 70 / 100"
definition CATEGORY_B_THRESHOLD :: rat where "CATEGORY_B_THRESHOLD = 90 / 100"
definition CATEGORY_A_PICKUP_MIN :: rat where "CATEGORY_A_PICKUP_MIN = 5 / 100"
definition CATEGORY_A_PICKUP_MAX :: rat where "CATEGORY_A_PICKUP_MAX = 20 / 100"
definition CATEGORY_B_PICKUP_MIN :: rat where "CATEGORY_B_PICKUP_MIN = 20 / 100"
definition CATEGORY_B_PICKUP_MAX :: rat where "CATEGORY_B_PICKUP_MAX = 50 / 100"

record vehicle_class =
  vc_name :: string
  vc_type :: string
  capacity_factor :: rat
  fixed_cost :: int
  variable_cost :: rat

definition VEHICLE_CLASSES :: "vehicle_class list" where
  "VEHICLE_CLASSES =
     [\<lparr>vc_name = ''Class1'', vc_type = ''Cargo bike/micro-EV'', capacity_factor = 25 / 100,
       fixed_cost = 60, variable_cost = 45 / 100\<rparr>,
      \<lparr>vc_name = ''Class2'', vc_type = ''Small van (1 t)'', capacity_factor = 50 / 100,
       fixed_cost = 120, variable_cost = 60 / 100\<rparr>,
      \<lparr>vc_name = ''Class3'', vc_type = ''Large van (2 t)'', capacity_factor = 80 / 100,
       fixed_cost = 180, variable_cost = 75 / 100\<rparr>,
      \<lparr>vc_name = ''Class4'', vc_type = ''7.5-t truck'', capacity_factor = 120 / 100,
       fixed_cost = 240, variable_cost = 90 / 100\<rparr>]"

section \<open>Customer augmentation (source lines 144 to 229)\<close>

datatype category = A | B | C

record customer_cat = customer +
  category :: category

record customer_qty = customer_cat +
  delivery_qty :: int
  pickup_qty :: int

record customer_aug = customer_qty +
  delivery_service_time :: rat
  pickup_service_time :: rat
  new_service_time :: rat

text \<open>\<open>customer['category'] = ...\<close>: the dictionary gains a key.\<close>

definition set_category :: "customer \<Rightarrow> category \<Rightarrow> customer_cat" where
  "set_category c k = customer.extend c (customer_cat.fields k)"

definition set_quantities :: "customer_cat \<Rightarrow> int \<Rightarrow> int \<Rightarrow> customer_qty" where
  "set_quantities c d p = customer_cat.extend c (customer_qty.fields d p)"

definition set_service_times :: "customer_qty \<Rightarrow> rat \<Rightarrow> rat \<Rightarrow> rat \<Rightarrow> customer_aug" where
  "set_service_times c d p t = customer_qty.extend c (customer_aug.fields d p t)"

text \<open>Step 2, the body of the first loop: one \<open>random.random()\<close> per customer.\<close>

definition category_of :: "rat \<Rightarrow> category" where
  "category_of u_i =
     (if u_i < CATEGORY_A_THRESHOLD then A
      else if u_i < CATEGORY_B_THRESHOLD then B
      else C)"

definition categorize :: "'g rng \<Rightarrow> customer \<Rightarrow> 'g \<Rightarrow> customer_cat \<times> 'g" where
  "categorize R customer g =
     (case rng_random R g of (u_i, g1) \<Rightarrow> (set_category customer (category_of u_i), g1))"

text \<open>
  \<open>min(depot_info, key=lambda x: x[1])\<close>: the first element with the least key, a
  ValueError when the list is empty.
\<close>

fun min_by_capacity :: "(int \<times> int) \<Rightarrow> (int \<times> int) list \<Rightarrow> (int \<times> int)" where
  "min_by_capacity m [] = m"
| "min_by_capacity m (d # ds) = min_by_capacity (if snd d < snd m then d else m) ds"

definition smallest_vehicle_capacity :: "(int \<times> int) list \<Rightarrow> error + rat" where
  "smallest_vehicle_capacity depot_info =
     (case depot_info of
        [] \<Rightarrow> Inl ValueError
      | d # ds \<Rightarrow>
          Inr (of_int (snd (min_by_capacity d ds)) * capacity_factor (VEHICLE_CLASSES ! 0)))"

text \<open>
  Step 3, the three branches of the second loop: the delivery and pickup quantities
  before the capacity check. \<open>customers\<close> is the whole list, read by the category C
  branch for the average demand.
\<close>

definition draw_quantities ::
  "'g rng \<Rightarrow> 'a customer_scheme list \<Rightarrow> customer_cat \<Rightarrow> 'g \<Rightarrow> (int \<times> int) \<times> 'g" where
  "draw_quantities R customers customer g =
     (if category customer = A then
        (case rng_random R g of (r, g1) \<Rightarrow>
           (let d_qty = demand customer;
                pickup_factor =
                  CATEGORY_A_PICKUP_MIN + r * (CATEGORY_A_PICKUP_MAX - CATEGORY_A_PICKUP_MIN);
                p_qty = \<lceil>pickup_factor * of_int d_qty\<rceil>
            in ((d_qty, p_qty), g1)))
      else if category customer = B then
        (case rng_random R g of (r, g1) \<Rightarrow>
           (let d_qty = demand customer;
                pickup_factor =
                  CATEGORY_B_PICKUP_MIN + r * (CATEGORY_B_PICKUP_MAX - CATEGORY_B_PICKUP_MIN);
                p_qty = \<lceil>pickup_factor * of_int d_qty\<rceil>
            in ((d_qty, p_qty), g1)))
      else
        (let d_qty = (0 :: int);
             avg_delivery =
               (of_int (sum_list (map demand customers)) :: rat)
               / of_int (int (length customers))
         in case rng_randint R 1 (min 3 (max 1 \<lceil>avg_delivery * (15 / 100)\<rceil>)) g of
              (p_qty, g1) \<Rightarrow> ((d_qty, p_qty), g1)))"

text \<open>The capacity check at the end of the loop body (source lines 179 to 182).\<close>

definition clamp_pickup :: "rat \<Rightarrow> int \<Rightarrow> int \<Rightarrow> int" where
  "clamp_pickup cap d_qty p_qty =
     (if cap < of_int (d_qty + p_qty)
      then max 1 (py_trunc (cap - of_int d_qty))
      else p_qty)"

definition assign_quantities ::
  "'g rng \<Rightarrow> 'a customer_scheme list \<Rightarrow> rat \<Rightarrow> customer_cat \<Rightarrow> 'g \<Rightarrow> customer_qty \<times> 'g" where
  "assign_quantities R customers cap customer g =
     (case draw_quantities R customers customer g of
        ((d_qty, p_qty), g1) \<Rightarrow>
          (set_quantities customer d_qty (clamp_pickup cap d_qty p_qty), g1))"

text \<open>
  Step 5, the third loop: the delivery and the pickup service time before rounding.
\<close>

definition service_times :: "rat \<Rightarrow> int \<Rightarrow> int \<Rightarrow> rat \<times> rat" where
  "service_times original_service_time d_qty p_qty =
     (let base_time = max (min (original_service_time * BASE_OPERATION_TIME_FACTOR) 1) (1 / 2)
      in if 0 < d_qty \<and> 0 < p_qty then
           (let total_qty = d_qty + p_qty;
                d_time =
                  base_time + (original_service_time - 2 * base_time)
                              * (of_int d_qty / of_int total_qty);
                p_time =
                  base_time + (original_service_time - 2 * base_time)
                              * (of_int p_qty / of_int total_qty)
            in (d_time,
                p_time + PICKUP_HANDLING_FACTOR * of_int p_qty))
         else if 0 < d_qty then (original_service_time, 0)
         else (0, original_service_time + PICKUP_HANDLING_FACTOR * of_int p_qty))"



text \<open>The time window end after the check of source lines 226 to 229.\<close>

definition repair_tw_end :: "int \<Rightarrow> int \<Rightarrow> rat \<Rightarrow> int" where
  "repair_tw_end start end_tw total_time =
     (if of_int end_tw < of_int start + total_time
      then \<lceil>of_int start + total_time\<rceil>
      else end_tw)"

definition adjust_service_time :: "customer_qty \<Rightarrow> customer_aug" where
  "adjust_service_time customer =
     (case service_times (service_time customer) (delivery_qty customer) (pickup_qty customer) of
        (d_time, p_time) \<Rightarrow>
          (let total_time = d_time + p_time
           in (set_service_times customer
                 (py_round1 d_time)
                 (py_round1 p_time)
                 (py_round1 total_time))
              \<lparr>tw_end := repair_tw_end (tw_start customer) (tw_end customer) total_time\<rparr>))"

section \<open>Statistics and the JSON document (source lines 231 to 315)\<close>

text \<open>The statistics loop: the category counters and the two totals.\<close>

definition count_customer ::
  "customer_aug \<Rightarrow> (category \<Rightarrow> int) \<times> int \<times> int \<Rightarrow> (category \<Rightarrow> int) \<times> int \<times> int" where
  "count_customer customer acc =
     (case acc of (category_counts, total_delivery, total_pickup) \<Rightarrow>
        (category_counts(category customer := category_counts (category customer) + 1),
         total_delivery + delivery_qty customer,
         total_pickup + pickup_qty customer))"

definition collect_statistics :: "customer_aug list \<Rightarrow> (category \<Rightarrow> int) \<times> int \<times> int" where
  "collect_statistics customers = fold count_customer customers ((\<lambda>k. 0), 0, 0)"

text \<open>The decimal text of an integer, as an f-string formats it.\<close>

function digits :: "nat \<Rightarrow> string" where
  "digits n =
     (if n < 10 then [char_of (48 + n)]
      else digits (n div 10) @ [char_of (48 + n mod 10)])"
  by pat_completeness auto
termination
  by (relation "measure id") auto

declare digits.simps [simp del]

definition str_int :: "int \<Rightarrow> string" where
  "str_int i = (if i < 0 then CHR ''-'' # digits (nat (- i)) else digits (nat i))"

text \<open>\<open>base_filename.replace('pr', '')\<close>.\<close>

fun remove_pr :: "string \<Rightarrow> string" where
  "remove_pr (a # b # cs) =
     (if a = CHR ''p'' \<and> b = CHR ''r'' then remove_pr cs else a # remove_pr (b # cs))"
| "remove_pr cs = cs"

record statistics =
  nb_DeliveryWithLowReturn :: int
  nb_DeliveryWithSignificantReturn :: int
  nb_ReturnOnly :: int
  totalDeliveryQuantity :: int
  totalPickupQuantity :: int
  pickupToDeliveryRatio :: "rat option"
  \<comment> \<open>\<open>None\<close> is the string \<open>"N/A"\<close>\<close>

record metadata =
  instanceName :: string
  randomSeed :: int
  customerCount :: int
  depotCount :: int
  statistics :: statistics

record vehicle_type =
  vt_id :: string
  vt_name :: string
  vt_description :: string
  capacityFactor :: rat
  fixedCost :: int
  variableCost :: rat

record depot_vehicle =
  typeId :: string
  capacity :: int
  vehicle_count :: string
  vehicle_maxDuration :: int

record depot =
  depot_id :: int
  depot_x :: rat
  depot_y :: rat
  maxDuration :: int
  vehicles :: "depot_vehicle list"

record customer_entry =
  entry_id :: int
  entry_x :: rat
  entry_y :: rat
  TotalServiceTime :: rat
  deliveryServiceTime :: rat
  pickupServiceTime :: rat
  deliveryQuantity :: int
  pickupQuantity :: int
  entry_category :: category
  timeWindow_start :: int
  timeWindow_end :: int

record document =
  doc_metadata :: metadata
  vehicleTypes :: "vehicle_type list"
  depots :: "depot list"
  doc_customers :: "customer_entry list"

definition make_statistics :: "customer_aug list \<Rightarrow> statistics" where
  "make_statistics customers =
     (case collect_statistics customers of
        (category_counts, total_delivery, total_pickup) \<Rightarrow>
          \<lparr>nb_DeliveryWithLowReturn = category_counts A,
           nb_DeliveryWithSignificantReturn = category_counts B,
           nb_ReturnOnly = category_counts C,
           totalDeliveryQuantity = total_delivery,
           totalPickupQuantity = total_pickup,
           pickupToDeliveryRatio =
             (if 0 < total_delivery
              then Some (py_round1 (of_int total_pickup / of_int total_delivery * 100))
              else None)\<rparr>)"

definition make_vehicle_types :: "vehicle_type list" where
  "make_vehicle_types =
     map (\<lambda>(i, vehicle_class).
            \<lparr>vt_id = ''Type'' @ str_int (int i + 1),
             vt_name = vc_name vehicle_class,
             vt_description = vc_type vehicle_class,
             capacityFactor = capacity_factor vehicle_class,
             fixedCost = fixed_cost vehicle_class,
             variableCost = variable_cost vehicle_class\<rparr>)
         (enumerate 0 VEHICLE_CLASSES)"

text \<open>The inner loop of the depot loop: one vehicle record per class.\<close>

definition depot_vehicles :: "int \<Rightarrow> int \<Rightarrow> depot_vehicle list" where
  "depot_vehicles duration base_capacity =
     map (\<lambda>(j, vehicle_class).
            \<lparr>typeId = ''Type'' @ str_int (int j + 1),
             capacity = \<lfloor>of_int base_capacity * capacity_factor vehicle_class\<rfloor>,
             vehicle_count = ''unlimited'',
             vehicle_maxDuration = duration\<rparr>)
         (enumerate 0 VEHICLE_CLASSES)"

text \<open>
  The depot loop: \<open>enumerate(depot_coords)\<close>, a depot being appended only when
  \<open>i < len(depot_info)\<close>.
\<close>

definition make_depots :: "(int \<times> int) list \<Rightarrow> (int \<times> rat \<times> rat) list \<Rightarrow> depot list" where
  "make_depots depot_info depot_coords =
     concat (map (\<lambda>(i, (did, x, y)).
                    if i < length depot_info then
                      (let duration = fst (depot_info ! i);
                           base_capacity = snd (depot_info ! i)
                       in [\<lparr>depot_id = did, depot_x = x, depot_y = y, maxDuration = duration,
                            vehicles = depot_vehicles duration base_capacity\<rparr>])
                    else [])
                 (enumerate 0 depot_coords))"


definition make_customer_entry :: "customer_aug \<Rightarrow> customer_entry" where
  "make_customer_entry customer =
     \<lparr>entry_id = c_id customer,
      entry_x = c_x customer,
      entry_y = c_y customer,
      TotalServiceTime = new_service_time customer,
      deliveryServiceTime = delivery_service_time customer,
      pickupServiceTime = pickup_service_time customer,
      deliveryQuantity = delivery_qty customer,
      pickupQuantity = pickup_qty customer,
      entry_category = category customer,
      timeWindow_start = tw_start customer,
      timeWindow_end = tw_end customer\<rparr>"

definition make_instance :: "string \<Rightarrow> parsed \<Rightarrow> customer_aug list \<Rightarrow> document" where
  "make_instance base_filename p customers =
     \<lparr>doc_metadata =
        \<lparr>instanceName = ''taha'' @ remove_pr base_filename @ ''-n'' @ str_int (p_num_customers p),
         randomSeed = RANDOM_SEED,
         customerCount = p_num_customers p,
         depotCount = p_num_depots p,
         statistics = make_statistics customers\<rparr>,
      vehicleTypes = make_vehicle_types,
      depots = make_depots (p_depot_info p) (p_depot_coords p),
      doc_customers = map make_customer_entry customers\<rparr>"

section \<open>The whole transformation\<close>

text \<open>
  What the function reads and changes outside its arguments: the state of the global
  random generator, the standard output, and the content of the output path
  (\<open>None\<close> when there is no such file).
\<close>

record 'g world =
  gen :: 'g
  stdout :: "message list"
  out_file :: "document option"

text \<open>
  The augmentation of the parsed customers (source lines 144 to 229): the
  categorization loop, the capacity of the smallest vehicle, the quantity loop and
  the service time loop, in this order. The generator state is returned also when
  \<open>min\<close> raises, after the categorization loop has run.
\<close>

definition augment ::
  "'g rng \<Rightarrow> (int \<times> int) list \<Rightarrow> customer list \<Rightarrow> 'g \<Rightarrow> (error + customer_aug list) \<times> 'g" where
  "augment R depot_info customers g =
     (case for_each (categorize R) customers g of
        (categorized, g1) \<Rightarrow>
          (case smallest_vehicle_capacity depot_info of
             Inl e \<Rightarrow> (Inl e, g1)
           | Inr cap \<Rightarrow>
               (case for_each (assign_quantities R categorized cap) categorized g1 of
                  (with_qty, g2) \<Rightarrow> (Inr (map adjust_service_time with_qty), g2))))"




text \<open>
  \<open>transform_instance_to_json(input_file, output_file)\<close>: \<open>lines\<close> is what
  \<open>f.readlines()\<close> returns for the input file and \<open>base_filename\<close> its base name.
  The result is the returned instance or the exception raised, with the world after
  the call.
\<close>

definition transform_instance_to_json ::
  "'g rng \<Rightarrow> conv \<Rightarrow> string \<Rightarrow> string list \<Rightarrow> 'g world \<Rightarrow> (error + document) \<times> 'g world" where
  "transform_instance_to_json R cv base_filename lines w =
     (case parse_instance cv lines of
        (out, Inl e) \<Rightarrow> (Inl e, w\<lparr>stdout := stdout w @ [Transforming] @ out\<rparr>)
      | (out, Inr p) \<Rightarrow>
          (case augment R (p_depot_info p) (p_customers p) (gen w) of
             (Inl e, g1) \<Rightarrow>
               (Inl e, w\<lparr>gen := g1, stdout := stdout w @ [Transforming] @ out\<rparr>)
           | (Inr customers, g1) \<Rightarrow>
               (let instance = make_instance base_filename p customers
                in (Inr instance,
                    \<lparr>gen = g1,
                     stdout = stdout w @ [Transforming] @ out @ [Written],
                     out_file = Some instance\<rparr>))))"

section \<open>A scripted generator and a decimal reader, for running the model\<close>

text \<open>
  A generator whose state is the list of the values still to be drawn: each call
  takes the head. \<open>randint a b\<close> scales the head to the range.
\<close>

definition unit_draw :: "rat \<Rightarrow> rat" where
  "unit_draw u = (if 0 \<le> u \<and> u < 1 then u else 0)"

definition scripted :: "(rat list) rng" where
  "scripted =
     \<lparr>rng_random = (\<lambda>g. case g of [] \<Rightarrow> (0, []) | u # us \<Rightarrow> (unit_draw u, us)),
      rng_randint = (\<lambda>a b g. case g of [] \<Rightarrow> (a, [])
                       | u # us \<Rightarrow> (a + \<lfloor>unit_draw u * of_int (b - a + 1)\<rfloor>, us))\<rparr>"

text \<open>
  A reader of plain decimal literals (\<open>12\<close>, \<open>-7\<close>, \<open>3.25\<close>), on which it agrees with
  \<open>int()\<close> and \<open>float()\<close>.
\<close>

definition is_digit :: "char \<Rightarrow> bool" where
  "is_digit c = (48 \<le> (of_char c :: nat) \<and> (of_char c :: nat) \<le> 57)"

fun digits_value :: "nat \<Rightarrow> string \<Rightarrow> nat option" where
  "digits_value acc [] = Some acc"
| "digits_value acc (c # cs) =
     (if is_digit c then digits_value (10 * acc + (of_char c - 48)) cs else None)"

definition unsigned_value :: "string \<Rightarrow> nat option" where
  "unsigned_value s = (if s = [] then None else digits_value 0 s)"

definition decimal_int :: "string \<Rightarrow> int option" where
  "decimal_int s =
     (case s of
        [] \<Rightarrow> None
      | c # cs \<Rightarrow>
          if c = CHR ''-'' then map_option (\<lambda>n. - int n) (unsigned_value cs)
          else map_option int (unsigned_value s))"

definition unsigned_decimal :: "string \<Rightarrow> rat option" where
  "unsigned_decimal s =
     (let whole = takeWhile (\<lambda>c. c \<noteq> CHR ''.'') s;
          rest = dropWhile (\<lambda>c. c \<noteq> CHR ''.'') s
      in case unsigned_value whole of
           None \<Rightarrow> None
         | Some n \<Rightarrow>
             (case rest of
                [] \<Rightarrow> Some (of_nat n)
              | dot # fs \<Rightarrow>
                  (case unsigned_value fs of
                     None \<Rightarrow> None
                   | Some m \<Rightarrow> Some (of_nat n + of_nat m / 10 ^ length fs))))"

definition decimal_float :: "string \<Rightarrow> rat option" where
  "decimal_float s =
     (case s of
        [] \<Rightarrow> None
      | c # cs \<Rightarrow>
          if c = CHR ''-'' then map_option uminus (unsigned_decimal cs)
          else unsigned_decimal s)"

definition decimal :: conv where
  "decimal = \<lparr>py_int = decimal_int, py_float = decimal_float\<rparr>"

definition empty_world :: "rat list \<Rightarrow> (rat list) world" where
  "empty_world tape = \<lparr>gen = tape, stdout = [], out_file = None\<rparr>"

section \<open>Sample instances\<close>

text \<open>
  A type 6 instance with one depot of capacity 100 and three customers, and a script of
  draws that makes them of category A, B and C.
\<close>

definition sample_lines :: "string list" where
  "sample_lines =
     [''6 1 3 1'',
      ''1000 100'',
      ''1 10.5 20 7 3 0 0 100 200'',
      ''2 1 2 10 40 5 500'',
      ''3 0 0 4.5 8 0 3'',
      ''4 50 50'']"

definition sample_tape :: "rat list" where
  "sample_tape = [1 / 10, 8 / 10, 95 / 100, 1 / 2, 1 / 2, 1 / 2]"

definition sample_run :: "(error + document) \<times> (rat list) world" where
  "sample_run =
     transform_instance_to_json scripted decimal ''pr01'' sample_lines (empty_world sample_tape)"

definition sample_parsed :: parsed where
  "sample_parsed =
     \<lparr>p_vrp_type = 6, p_num_vehicles = 1, p_num_customers = 3, p_num_depots = 1,
      p_depot_info = [(1000, 100)],
      p_customers =
        [\<lparr>c_id = 1, c_x = 21 / 2, c_y = 20, service_time = 7, demand = 3,
          tw_start = 100, tw_end = 200\<rparr>,
         \<lparr>c_id = 2, c_x = 1, c_y = 2, service_time = 10, demand = 40,
          tw_start = 5, tw_end = 500\<rparr>,
         \<lparr>c_id = 3, c_x = 0, c_y = 0, service_time = 9 / 2, demand = 8,
          tw_start = 0, tw_end = 3\<rparr>],
      p_depot_coords = [(4, 50, 50)]\<rparr>"



section \<open>Well-formed instance texts\<close>



















section \<open>Loops and field updates\<close>

lemma for_each_length: "length (fst (for_each body xs g)) = length xs"
  by (induction xs arbitrary: g) (simp_all add: case_prod_beta)

lemma for_each_nth:
  "i < length xs \<Longrightarrow> \<exists>g'. fst (for_each body xs g) ! i = fst (body (xs ! i) g')"
proof (induction xs arbitrary: g i)
  case Nil
  then show ?case by simp
next
  case (Cons x xs)
  obtain y g1 where b: "body x g = (y, g1)" by (cases "body x g")
  obtain ys g2 where r: "for_each body xs g1 = (ys, g2)" by (cases "for_each body xs g1")
  show ?case
  proof (cases i)
    case 0
    with b r show ?thesis by (auto intro: exI [of _ g])
  next
    case (Suc j)
    with Cons.prems have "j < length xs" by simp
    from Cons.IH [OF this, of g1] obtain g' where "fst (for_each body xs g1) ! j = fst (body (xs ! j) g')" by blast
    with b r Suc show ?thesis by auto
  qed
qed

lemma set_category_sel [simp]:
  "c_id (set_category c k) = c_id c"
  "c_x (set_category c k) = c_x c"
  "c_y (set_category c k) = c_y c"
  "service_time (set_category c k) = service_time c"
  "demand (set_category c k) = demand c"
  "tw_start (set_category c k) = tw_start c"
  "tw_end (set_category c k) = tw_end c"
  "category (set_category c k) = k"
  by (simp_all add: set_category_def customer.defs customer_cat.defs)

lemma set_quantities_sel [simp]:
  "c_id (set_quantities c d p) = c_id c"
  "c_x (set_quantities c d p) = c_x c"
  "c_y (set_quantities c d p) = c_y c"
  "service_time (set_quantities c d p) = service_time c"
  "demand (set_quantities c d p) = demand c"
  "tw_start (set_quantities c d p) = tw_start c"
  "tw_end (set_quantities c d p) = tw_end c"
  "category (set_quantities c d p) = category c"
  "delivery_qty (set_quantities c d p) = d"
  "pickup_qty (set_quantities c d p) = p"
  by (simp_all add: set_quantities_def customer_cat.defs customer_qty.defs)

lemma set_service_times_sel [simp]:
  "c_id (set_service_times c d p t) = c_id c"
  "c_x (set_service_times c d p t) = c_x c"
  "c_y (set_service_times c d p t) = c_y c"
  "service_time (set_service_times c d p t) = service_time c"
  "demand (set_service_times c d p t) = demand c"
  "tw_start (set_service_times c d p t) = tw_start c"
  "tw_end (set_service_times c d p t) = tw_end c"
  "category (set_service_times c d p t) = category c"
  "delivery_qty (set_service_times c d p t) = delivery_qty c"
  "pickup_qty (set_service_times c d p t) = pickup_qty c"
  "delivery_service_time (set_service_times c d p t) = d"
  "pickup_service_time (set_service_times c d p t) = p"
  "new_service_time (set_service_times c d p t) = t"
  by (simp_all add: set_service_times_def customer_qty.defs customer_aug.defs)

lemma augment_nth:
  assumes "augment R dinfo cs g = (Inr augs, g')"
  shows "length augs = length cs \<and>
         (\<forall>i < length cs. \<exists>(cats :: customer_cat list) cap gk gq.
            smallest_vehicle_capacity dinfo = Inr cap \<and> length cats = length cs \<and>
            augs ! i = adjust_service_time
                         (fst (assign_quantities R cats cap (fst (categorize R (cs ! i) gk)) gq)))"
proof -
  obtain cats g1 where c: "for_each (categorize R) cs g = (cats, g1)"
    by (cases "for_each (categorize R) cs g")
  from assms c obtain cap where cap: "smallest_vehicle_capacity dinfo = Inr cap"
    by (auto simp: augment_def split: sum.splits)
  obtain qs g2 where q: "for_each (assign_quantities R cats cap) cats g1 = (qs, g2)"
    by (cases "for_each (assign_quantities R cats cap) cats g1")
  from assms c cap q have augs: "augs = map adjust_service_time qs"
    by (simp add: augment_def)
  have lc: "length cats = length cs" using for_each_length [of "categorize R" cs g] c by simp
  have lq: "length qs = length cats"
    using for_each_length [of "assign_quantities R cats cap" cats g1] q by simp
  have "\<exists>gk gq. augs ! i = adjust_service_time
                         (fst (assign_quantities R cats cap (fst (categorize R (cs ! i) gk)) gq))"
    if i: "i < length cs" for i
  proof -
    from for_each_nth [OF i, of "categorize R" g] c
    obtain gk where gk: "cats ! i = fst (categorize R (cs ! i) gk)" by auto
    from i lc have "i < length cats" by simp
    from for_each_nth [OF this, of "assign_quantities R cats cap" g1] q
    obtain gq where gq: "qs ! i = fst (assign_quantities R cats cap (cats ! i) gq)" by auto
    from i lc lq augs gk gq show ?thesis by auto
  qed
  with cap lc lq augs show ?thesis by auto
qed

section \<open>The quantity step\<close>

lemma pickup_factor_A_pos:
  "0 \<le> r \<Longrightarrow> 0 < CATEGORY_A_PICKUP_MIN + r * (CATEGORY_A_PICKUP_MAX - CATEGORY_A_PICKUP_MIN)"
  by (simp add: CATEGORY_A_PICKUP_MIN_def CATEGORY_A_PICKUP_MAX_def add_pos_nonneg)

lemma pickup_factor_B_pos:
  "0 \<le> r \<Longrightarrow> 0 < CATEGORY_B_PICKUP_MIN + r * (CATEGORY_B_PICKUP_MAX - CATEGORY_B_PICKUP_MIN)"
  by (simp add: CATEGORY_B_PICKUP_MIN_def CATEGORY_B_PICKUP_MAX_def add_pos_nonneg)

lemma ceiling_scaled_ge1: "0 < (f :: rat) \<Longrightarrow> 1 \<le> (n :: int) \<Longrightarrow> 1 \<le> \<lceil>f * of_int n\<rceil>"
proof -
  assume "0 < f" "1 \<le> n"
  then have "0 < f * of_int n" by simp
  then show ?thesis by simp
qed

lemma ceiling_scaled_ge0: "0 < (f :: rat) \<Longrightarrow> 0 \<le> (n :: int) \<Longrightarrow> 0 \<le> \<lceil>f * of_int n\<rceil>"
proof -
  assume "0 < f" "0 \<le> n"
  then have "0 \<le> f * of_int n" by simp
  then have "-1 < f * of_int n" by linarith
  then show ?thesis by simp
qed

lemma rng_ok_random: "rng_ok R \<Longrightarrow> rng_random R g = (r, g1) \<Longrightarrow> 0 \<le> r \<and> r < 1"
  unfolding rng_ok_def by (metis fst_conv)

lemma rng_ok_randint:
  "rng_ok R \<Longrightarrow> a \<le> b \<Longrightarrow> rng_randint R a b g = (n, g1) \<Longrightarrow> a \<le> n \<and> n \<le> b"
  unfolding rng_ok_def by (metis fst_conv)

lemma draw_quantities_C:
  assumes "rng_ok R" "category c = C" "draw_quantities R cs c g = ((d, p), g1)"
  shows "d = 0 \<and> 1 \<le> p \<and> p \<le> 3"
proof -
  let ?k = "min 3 (max 1 \<lceil>(of_int (sum_list (map demand cs)) :: rat) / of_int (int (length cs)) * (15 / 100)\<rceil>)"
  obtain n g2 where r: "rng_randint R 1 ?k g = (n, g2)" by (cases "rng_randint R 1 ?k g")
  have k: "1 \<le> ?k" "?k \<le> 3" by simp_all
  from rng_ok_randint [OF assms(1) k(1) r] k(2) have "1 \<le> n" "n \<le> 3" by simp_all
  moreover from assms(2,3) r have "d = 0" "p = n" by (simp_all add: draw_quantities_def Let_def)
  ultimately show ?thesis by simp
qed

lemma draw_quantities_AB:
  assumes "rng_ok R" "category c \<noteq> C" "draw_quantities R cs c g = ((d, p), g1)"
  shows "d = demand c \<and> (1 \<le> demand c \<longrightarrow> 1 \<le> p) \<and> (0 \<le> demand c \<longrightarrow> 0 \<le> p)"
proof -
  obtain r g2 where r: "rng_random R g = (r, g2)" by (cases "rng_random R g")
  from rng_ok_random [OF assms(1) r] have r0: "0 \<le> r" by simp
  from assms(2) have "category c = A \<or> category c = B" by (cases "category c") simp_all
  then show ?thesis
  proof
    assume "category c = A"
    with assms(3) r have "d = demand c"
      "p = \<lceil>(CATEGORY_A_PICKUP_MIN + r * (CATEGORY_A_PICKUP_MAX - CATEGORY_A_PICKUP_MIN)) * of_int (demand c)\<rceil>"
      by (auto simp: draw_quantities_def Let_def)
    with pickup_factor_A_pos [OF r0] show ?thesis
      using ceiling_scaled_ge1 ceiling_scaled_ge0 by blast
  next
    assume "category c = B"
    with assms(3) r have "d = demand c"
      "p = \<lceil>(CATEGORY_B_PICKUP_MIN + r * (CATEGORY_B_PICKUP_MAX - CATEGORY_B_PICKUP_MIN)) * of_int (demand c)\<rceil>"
      by (auto simp: draw_quantities_def Let_def)
    with pickup_factor_B_pos [OF r0] show ?thesis
      using ceiling_scaled_ge1 ceiling_scaled_ge0 by blast
  qed
qed

lemma clamp_pickup_ge1: "1 \<le> p \<Longrightarrow> 1 \<le> clamp_pickup cap d p"
  by (simp add: clamp_pickup_def)

lemma clamp_pickup_ge0: "0 \<le> p \<Longrightarrow> 0 \<le> clamp_pickup cap d p"
  by (auto simp: clamp_pickup_def max_def)

lemma clamp_pickup_le3: "p \<le> 3 \<Longrightarrow> clamp_pickup cap 0 p \<le> 3"
proof (cases "cap < of_int p")
  case False
  assume "p \<le> 3"
  with False show ?thesis by (simp add: clamp_pickup_def)
next
  case True
  assume "p \<le> 3"
  then have "(of_int p :: rat) \<le> 3" by (metis of_int_le_iff of_int_numeral)
  with True have c3: "cap < 3" by simp
  have "py_trunc cap \<le> 3"
  proof (cases "0 \<le> cap")
    case True
    from c3 have "\<lfloor>cap\<rfloor> \<le> 3" by (simp add: floor_le_iff)
    with True show ?thesis by (simp add: py_trunc_def)
  next
    case False
    then have "\<lceil>cap\<rceil> \<le> 0" by (simp add: ceiling_le_iff)
    with False show ?thesis by (simp add: py_trunc_def)
  qed
  with True show ?thesis by (simp add: clamp_pickup_def)
qed

lemma assign_quantities_keeps [simp]:
  "category (fst (assign_quantities R cs cap c g)) = category c"
  "demand (fst (assign_quantities R cs cap c g)) = demand c"
  "service_time (fst (assign_quantities R cs cap c g)) = service_time c"
  "tw_start (fst (assign_quantities R cs cap c g)) = tw_start c"
  "tw_end (fst (assign_quantities R cs cap c g)) = tw_end c"
  "c_id (fst (assign_quantities R cs cap c g)) = c_id c"
  "c_x (fst (assign_quantities R cs cap c g)) = c_x c"
  "c_y (fst (assign_quantities R cs cap c g)) = c_y c"
  by (simp_all add: assign_quantities_def split: prod.splits)

lemma assign_quantities_C:
  assumes "rng_ok R" "category c = C"
  shows "delivery_qty (fst (assign_quantities R cs cap c g)) = 0 \<and>
         1 \<le> pickup_qty (fst (assign_quantities R cs cap c g)) \<and>
         pickup_qty (fst (assign_quantities R cs cap c g)) \<le> 3"
proof -
  obtain d p g1 where dq: "draw_quantities R cs c g = ((d, p), g1)"
    by (metis surj_pair)
  from draw_quantities_C [OF assms dq] have "d = 0" "1 \<le> p" "p \<le> 3" by simp_all
  with dq show ?thesis
    by (simp add: assign_quantities_def clamp_pickup_ge1 clamp_pickup_le3)
qed

lemma assign_quantities_AB:
  assumes "rng_ok R" "category c \<noteq> C"
  shows "delivery_qty (fst (assign_quantities R cs cap c g)) = demand c \<and>
         (1 \<le> demand c \<longrightarrow> 1 \<le> pickup_qty (fst (assign_quantities R cs cap c g))) \<and>
         (0 \<le> demand c \<longrightarrow> 0 \<le> pickup_qty (fst (assign_quantities R cs cap c g)))"
proof -
  obtain d p g1 where dq: "draw_quantities R cs c g = ((d, p), g1)"
    by (metis surj_pair)
  from draw_quantities_AB [OF assms dq] dq show ?thesis
    by (simp add: assign_quantities_def clamp_pickup_ge1 clamp_pickup_ge0)
qed

lemma categorize_keeps [simp]:
  "demand (fst (categorize R c g)) = demand c"
  "service_time (fst (categorize R c g)) = service_time c"
  "tw_start (fst (categorize R c g)) = tw_start c"
  "tw_end (fst (categorize R c g)) = tw_end c"
  "c_id (fst (categorize R c g)) = c_id c"
  "c_x (fst (categorize R c g)) = c_x c"
  "c_y (fst (categorize R c g)) = c_y c"
  by (simp_all add: categorize_def split: prod.splits)


lemma adjust_service_time_keeps [simp]:
  "category (adjust_service_time q) = category q"
  "demand (adjust_service_time q) = demand q"
  "delivery_qty (adjust_service_time q) = delivery_qty q"
  "pickup_qty (adjust_service_time q) = pickup_qty q"
  "service_time (adjust_service_time q) = service_time q"
  "tw_start (adjust_service_time q) = tw_start q"
  "c_id (adjust_service_time q) = c_id q"
  "c_x (adjust_service_time q) = c_x q"
  "c_y (adjust_service_time q) = c_y q"
  by (simp_all add: adjust_service_time_def Let_def split: prod.splits)

lemma transform_Inr:
  assumes "transform_instance_to_json R cv base lines w = (Inr doc, w')"
  shows "\<exists>out p augs g1.
           parse_instance cv lines = (out, Inr p) \<and>
           augment R (p_depot_info p) (p_customers p) (gen w) = (Inr augs, g1) \<and>
           doc = make_instance base p augs \<and>
           w' = \<lparr>gen = g1, stdout = stdout w @ [Transforming] @ out @ [Written],
                 out_file = Some doc\<rparr>"
  using assms
  by (auto simp: transform_instance_to_json_def Let_def split: prod.splits sum.splits)

section \<open>The output entries\<close>

lemma make_customer_entry_sel [simp]:
  "entry_category (make_customer_entry a) = category a"
  "deliveryQuantity (make_customer_entry a) = delivery_qty a"
  "pickupQuantity (make_customer_entry a) = pickup_qty a"
  "timeWindow_start (make_customer_entry a) = tw_start a"
  "timeWindow_end (make_customer_entry a) = tw_end a"
  "TotalServiceTime (make_customer_entry a) = new_service_time a"
  "deliveryServiceTime (make_customer_entry a) = delivery_service_time a"
  "pickupServiceTime (make_customer_entry a) = pickup_service_time a"
  by (simp_all add: make_customer_entry_def)

lemma doc_customers_make_instance [simp]:
  "doc_customers (make_instance base p augs) = map make_customer_entry augs"
  by (simp add: make_instance_def)

lemma rng_ok_scripted: "rng_ok scripted"
proof -
  have u: "0 \<le> unit_draw u \<and> unit_draw u < 1" for u by (simp add: unit_draw_def)
  have r: "0 \<le> fst (rng_random scripted g) \<and> fst (rng_random scripted g) < 1" for g
    using u by (cases g) (simp_all add: scripted_def)
  have i: "a \<le> fst (rng_randint scripted a b g) \<and> fst (rng_randint scripted a b g) \<le> b"
    if ab: "a \<le> b" for a b g
  proof (cases g)
    case Nil
    with ab show ?thesis by (simp add: scripted_def)
  next
    case (Cons v vs)
    let ?n = "b - a + 1"
    from ab have n: "(0 :: rat) < of_int ?n" by simp
    from u [of v] n have lo: "0 \<le> unit_draw v * of_int ?n" by simp
    from u [of v] n have hi: "unit_draw v * of_int ?n < of_int ?n"
      by (metis mult.commute mult.right_neutral mult_less_cancel_left_pos)
    from lo have "0 \<le> \<lfloor>unit_draw v * of_int ?n\<rfloor>" by simp
    moreover from hi have "\<lfloor>unit_draw v * of_int ?n\<rfloor> < ?n" by (simp only: floor_less_iff)
    ultimately show ?thesis using Cons by (simp add: scripted_def)
  qed
  from r i show ?thesis unfolding rng_ok_def by blast
qed

section \<open>Category C customers\<close>

text \<open>
  Claim C3: every customer of category C (categorization draw at least 0.90) has delivery
  quantity 0 and a pickup quantity between 1 and 3 in the output document, the capacity
  check included. The generator is assumed to keep its ranges (\<open>rng_ok\<close>).
\<close>

theorem category_C_entry_quantities:
  assumes "rng_ok R"
    and "transform_instance_to_json R cv base lines w = (Inr doc, w')"
    and "e \<in> set (doc_customers doc)"
    and "entry_category e = C"
  shows "deliveryQuantity e = 0 \<and> 1 \<le> pickupQuantity e \<and> pickupQuantity e \<le> 3"
proof -
  from transform_Inr [OF assms(2)] obtain out p augs g1 where
    aug: "augment R (p_depot_info p) (p_customers p) (gen w) = (Inr augs, g1)"
    and doc: "doc = make_instance base p augs" by blast
  from assms(3) doc obtain a where a: "a \<in> set augs" and e: "e = make_customer_entry a" by auto
  from a obtain i where i: "i < length augs" and ai: "augs ! i = a" by (auto simp: in_set_conv_nth)
  from augment_nth [OF aug] i obtain cats :: "customer_cat list" and cap gk gq where
    q: "augs ! i = adjust_service_time
          (fst (assign_quantities R cats cap (fst (categorize R (p_customers p ! i) gk)) gq))"
    by fastforce
  let ?c = "fst (categorize R (p_customers p ! i) gk)"
  from e ai q have e': "e = make_customer_entry
      (adjust_service_time (fst (assign_quantities R cats cap ?c gq)))" by simp
  from assms(4) have "category ?c = C" unfolding e' by simp
  from assign_quantities_C [OF assms(1) this, of cats cap gq] show ?thesis unfolding e' by simp
qed

lemma sample_run_entries:
  "case sample_run of
     (Inr doc, w') \<Rightarrow>
        map entry_category (doc_customers doc) = [A, B, C] \<and> length (doc_customers doc) = 3
   | (Inl err, w') \<Rightarrow> False"
  by code_simp

theorem category_C_entry_quantities_witness:
  "rng_ok scripted \<and>
   (case sample_run of
      (Inr doc, w') \<Rightarrow>
         entry_category (doc_customers doc ! 2) = C \<and>
         deliveryQuantity (doc_customers doc ! 2) = 0 \<and>
         1 \<le> pickupQuantity (doc_customers doc ! 2) \<and>
         pickupQuantity (doc_customers doc ! 2) \<le> 3
    | (Inl err, w') \<Rightarrow> False)"
proof -
  from sample_run_entries obtain doc w' where
    run: "sample_run = (Inr doc, w')"
    and cats: "map entry_category (doc_customers doc) = [A, B, C]"
    and len: "length (doc_customers doc) = 3"
    by (auto split: prod.splits sum.splits)
  from len have mem: "doc_customers doc ! 2 \<in> set (doc_customers doc)" by simp
  from cats len have c: "entry_category (doc_customers doc ! 2) = C"
    by (metis nth_map nth_Cons_0 nth_Cons_Suc numeral_2_eq_2 lessI less_SucI numeral_3_eq_3)
  from category_C_entry_quantities [OF rng_ok_scripted run [unfolded sample_run_def] mem c]
  have "deliveryQuantity (doc_customers doc ! 2) = 0 \<and>
        1 \<le> pickupQuantity (doc_customers doc ! 2) \<and>
        pickupQuantity (doc_customers doc ! 2) \<le> 3" .
  with c rng_ok_scripted show ?thesis by (simp add: run)
qed

lemma transform_entry_nth:
  assumes "transform_instance_to_json R cv base lines w = (Inr doc, w')"
    and "parse_instance cv lines = (out, Inr p)"
    and "i < length (p_customers p)"
  shows "length (doc_customers doc) = length (p_customers p) \<and>
         (\<exists>(cats :: customer_cat list) cap gk gq.
            doc_customers doc ! i =
              make_customer_entry (adjust_service_time
                (fst (assign_quantities R cats cap (fst (categorize R (p_customers p ! i) gk)) gq))))"
proof -
  from transform_Inr [OF assms(1)] assms(2) obtain augs g1 where
    aug: "augment R (p_depot_info p) (p_customers p) (gen w) = (Inr augs, g1)"
    and doc: "doc = make_instance base p augs" by auto
  from augment_nth [OF aug] have len: "length augs = length (p_customers p)" by simp
  from augment_nth [OF aug] assms(3) obtain cats :: "customer_cat list" and cap gk gq where
    "augs ! i = adjust_service_time
          (fst (assign_quantities R cats cap (fst (categorize R (p_customers p ! i) gk)) gq))"
    by fastforce
  with len doc assms(3) show ?thesis by auto
qed

section \<open>Pickup quantities of at least one\<close>

text \<open>
  Claim C10: for every customer whose parsed demand is at least 1, and for every customer
  of category C whatever its demand, the pickup quantity of the output is at least 1; a
  pickup quantity of 0 occurs only for a customer of category A or B whose parsed demand
  is at most 0. Customer \<open>i\<close> of the output is customer \<open>i\<close> of the parsed input.
\<close>

theorem pickup_quantity_at_least_one:
  assumes "rng_ok R"
    and "transform_instance_to_json R cv base lines w = (Inr doc, w')"
    and "parse_instance cv lines = (out, Inr p)"
    and "i < length (p_customers p)"
  shows "(1 \<le> demand (p_customers p ! i) \<or> entry_category (doc_customers doc ! i) = C
            \<longrightarrow> 1 \<le> pickupQuantity (doc_customers doc ! i)) \<and>
         (pickupQuantity (doc_customers doc ! i) = 0
            \<longrightarrow> entry_category (doc_customers doc ! i) \<noteq> C \<and> demand (p_customers p ! i) \<le> 0)"
proof -
  from transform_entry_nth [OF assms(2,3,4)] obtain cats :: "customer_cat list" and cap gk gq where
    e: "doc_customers doc ! i =
          make_customer_entry (adjust_service_time
            (fst (assign_quantities R cats cap (fst (categorize R (p_customers p ! i) gk)) gq)))"
    by blast
  let ?c = "fst (categorize R (p_customers p ! i) gk)"
  let ?q = "fst (assign_quantities R cats cap ?c gq)"
  have cat: "entry_category (doc_customers doc ! i) = category ?c" unfolding e by simp
  have pk: "pickupQuantity (doc_customers doc ! i) = pickup_qty ?q" unfolding e by simp
  have dem: "demand ?c = demand (p_customers p ! i)" by simp
  have main: "1 \<le> pickup_qty ?q" if "1 \<le> demand (p_customers p ! i) \<or> category ?c = C"
  proof (cases "category ?c = C")
    case True
    from assign_quantities_C [OF assms(1) True] show ?thesis by blast
  next
    case False
    with that have "1 \<le> demand ?c" by simp
    with assign_quantities_AB [OF assms(1) False, of cats cap gq] show ?thesis by blast
  qed
  show ?thesis
  proof (intro conjI impI)
    assume "1 \<le> demand (p_customers p ! i) \<or> entry_category (doc_customers doc ! i) = C"
    with main cat pk show "1 \<le> pickupQuantity (doc_customers doc ! i)" by simp
  next
    assume z: "pickupQuantity (doc_customers doc ! i) = 0"
    with main cat pk show "entry_category (doc_customers doc ! i) \<noteq> C" by fastforce
  next
    assume z: "pickupQuantity (doc_customers doc ! i) = 0"
    show "demand (p_customers p ! i) \<le> 0"
    proof (rule ccontr)
      assume "\<not> demand (p_customers p ! i) \<le> 0"
      then have "1 \<le> demand (p_customers p ! i)" by simp
      with main pk z show False by simp
    qed
  qed
qed

section \<open>Rounding\<close>

lemma round_half_even_cases:
  "round_half_even q = \<lfloor>q\<rfloor> \<and> q - of_int \<lfloor>q\<rfloor> \<le> 1 / 2 \<or>
   round_half_even q = \<lfloor>q\<rfloor> + 1 \<and> 1 / 2 \<le> q - of_int \<lfloor>q\<rfloor>"
  by (auto simp: round_half_even_def Let_def)

lemma round_half_even_near: "\<bar>of_int (round_half_even q) - q\<bar> \<le> 1 / 2"
proof -
  have f: "of_int \<lfloor>q\<rfloor> \<le> q" "q < of_int \<lfloor>q\<rfloor> + 1" by linarith+
  from round_half_even_cases [of q] show ?thesis
  proof
    assume "round_half_even q = \<lfloor>q\<rfloor> \<and> q - of_int \<lfloor>q\<rfloor> \<le> 1 / 2"
    with f show ?thesis by simp
  next
    assume "round_half_even q = \<lfloor>q\<rfloor> + 1 \<and> 1 / 2 \<le> q - of_int \<lfloor>q\<rfloor>"
    with f show ?thesis by simp
  qed
qed


lemma py_round1_near: "\<bar>py_round1 q - q\<bar> \<le> 1 / 20"
proof -
  have "\<bar>of_int (round_half_even (q * 10)) - q * 10\<bar> \<le> 1 / 2" by (rule round_half_even_near)
  then show ?thesis unfolding py_round1_def by (simp add: field_simps abs_le_iff)
qed






section \<open>The sample run\<close>

lemma sample_parse: "parse_instance decimal sample_lines = ([], Inr sample_parsed)"
  by code_simp

lemma sample_run_ok:
  "case sample_run of (Inr doc, w') \<Rightarrow> length (doc_customers doc) = 3 | (Inl err, w') \<Rightarrow> False"
  by code_simp

theorem pickup_quantity_at_least_one_witness:
  "rng_ok scripted \<and>
   parse_instance decimal sample_lines = ([], Inr sample_parsed) \<and>
   0 < length (p_customers sample_parsed) \<and>
   1 \<le> demand (p_customers sample_parsed ! 0) \<and>
   (case sample_run of
      (Inr doc, w') \<Rightarrow> 1 \<le> pickupQuantity (doc_customers doc ! 0)
    | (Inl err, w') \<Rightarrow> False)"
proof -
  from sample_run_ok obtain doc w' where run: "sample_run = (Inr doc, w')"
    by (auto split: prod.splits sum.splits)
  have len: "0 < length (p_customers sample_parsed)" by (simp add: sample_parsed_def)
  have dem: "1 \<le> demand (p_customers sample_parsed ! 0)" by (simp add: sample_parsed_def)
  from pickup_quantity_at_least_one
         [OF rng_ok_scripted run [unfolded sample_run_def] sample_parse len] dem
  have "1 \<le> pickupQuantity (doc_customers doc ! 0)" by blast
  with rng_ok_scripted sample_parse len dem show ?thesis by (simp add: run)
qed

section \<open>Time window repair\<close>



section \<open>The written service times\<close>





section \<open>Depots and their vehicles\<close>








section \<open>Statistics\<close>













section \<open>The capacity check\<close>

text \<open>
  Claim C1 says that delivery plus pickup quantity never exceeds the capacity of the
  smallest vehicle after the capacity check. In the sample run that capacity is 25 and
  the second customer has the demand 40: the check sets its pickup quantity to
  \<open>max(1, int(25 - 40)) = 1\<close> and leaves the delivery quantity 40.
\<close>

theorem capacity_clamp_exceeded:
  "smallest_vehicle_capacity (p_depot_info sample_parsed) = Inr 25 \<and>
   demand (p_customers sample_parsed ! 1) = 40 \<and>
   (case sample_run of
      (Inr doc, w') \<Rightarrow>
         deliveryQuantity (doc_customers doc ! 1) = 40 \<and>
         pickupQuantity (doc_customers doc ! 1) = 1 \<and>
         (25 :: rat) < of_int (deliveryQuantity (doc_customers doc ! 1)
                              + pickupQuantity (doc_customers doc ! 1))
    | (Inl err, w') \<Rightarrow> False)"
  by code_simp

section \<open>Determinism\<close>



section \<open>The order of the draws\<close>








section \<open>Failures of the parsing\<close>










lemma int_at_value: "int_at cv toks (int k) = Inr v \<Longrightarrow> v = the (py_int cv (toks ! k))"
  by (auto simp: int_at_def py_nth_def to_int_def split: option.splits if_splits)

lemma isl_cases: "isl x \<or> (\<exists>v. x = Inr v)"
  by (cases x) simp_all




















lemma parse_depot_coords_out:
  "parse_depot_coords cv lines js = (out, r) \<Longrightarrow> \<forall>m \<in> set out. \<exists>i. m = WarningMissingDepot i"
proof (induction js arbitrary: out r)
  case Nil
  then show ?case by simp
next
  case (Cons i js)
  then show ?case
    by (auto split: if_splits sum.splits prod.splits)
qed








end
